theory Spec2Isabelle
  imports Complex_Main "HOL-Library.AList"
begin

section \<open>Numbers and text of the host language\<close>

text \<open>
  The program is JavaScript. A number of the program is a value of \<open>jsnum\<close>: a finite
  value, one of the two infinities, or NaN. Finite values are kept exact (rationals):
  the rounding of a result to the nearest double, overflow of a finite result beyond the
  double range, underflow and the sign of zero are not part of this model. Infinities and
  NaN arise where the language produces them from exact operands: division by zero,
  \<open>Infinity - Infinity\<close>, \<open>0 * Infinity\<close>, and \<open>parseFloat\<close> of a text that is no number.
\<close>

datatype jsnum = Fin rat | PInf | NInf | NaN


fun jsneg :: "jsnum \<Rightarrow> jsnum" where
  "jsneg (Fin a) = Fin (- a)"
| "jsneg PInf = NInf"
| "jsneg NInf = PInf"
| "jsneg NaN = NaN"

fun jsadd :: "jsnum \<Rightarrow> jsnum \<Rightarrow> jsnum" where
  "jsadd NaN y = NaN"
| "jsadd x NaN = NaN"
| "jsadd PInf NInf = NaN"
| "jsadd NInf PInf = NaN"
| "jsadd PInf y = PInf"
| "jsadd x PInf = PInf"
| "jsadd NInf y = NInf"
| "jsadd x NInf = NInf"
| "jsadd (Fin a) (Fin b) = Fin (a + b)"

definition jssub :: "jsnum \<Rightarrow> jsnum \<Rightarrow> jsnum" where
  "jssub x y = jsadd x (jsneg y)"

fun jsmul :: "jsnum \<Rightarrow> jsnum \<Rightarrow> jsnum" where
  "jsmul NaN y = NaN"
| "jsmul x NaN = NaN"
| "jsmul (Fin a) (Fin b) = Fin (a * b)"
| "jsmul (Fin a) PInf = (if a = 0 then NaN else if 0 < a then PInf else NInf)"
| "jsmul (Fin a) NInf = (if a = 0 then NaN else if 0 < a then NInf else PInf)"
| "jsmul PInf (Fin b) = (if b = 0 then NaN else if 0 < b then PInf else NInf)"
| "jsmul NInf (Fin b) = (if b = 0 then NaN else if 0 < b then NInf else PInf)"
| "jsmul PInf PInf = PInf"
| "jsmul PInf NInf = NInf"
| "jsmul NInf PInf = NInf"
| "jsmul NInf NInf = PInf"

text \<open>Division: a zero denominator gives NaN for \<open>0 / 0\<close> and an infinity otherwise.\<close>

fun jsdiv :: "jsnum \<Rightarrow> jsnum \<Rightarrow> jsnum" where
  "jsdiv NaN y = NaN"
| "jsdiv x NaN = NaN"
| "jsdiv (Fin a) (Fin b) =
     (if b = 0 then (if a = 0 then NaN else if 0 < a then PInf else NInf)
      else Fin (a / b))"
| "jsdiv (Fin a) PInf = Fin 0"
| "jsdiv (Fin a) NInf = Fin 0"
| "jsdiv PInf (Fin b) = (if 0 \<le> b then PInf else NInf)"
| "jsdiv NInf (Fin b) = (if 0 \<le> b then NInf else PInf)"
| "jsdiv PInf PInf = NaN"
| "jsdiv PInf NInf = NaN"
| "jsdiv NInf PInf = NaN"
| "jsdiv NInf NInf = NaN"

text \<open>The comparison \<open>x > y\<close>: false whenever an operand is NaN.\<close>

fun jsgt :: "jsnum \<Rightarrow> jsnum \<Rightarrow> bool" where
  "jsgt NaN y = False"
| "jsgt x NaN = False"
| "jsgt (Fin a) (Fin b) = (b < a)"
| "jsgt PInf PInf = False"
| "jsgt PInf y = True"
| "jsgt NInf y = False"
| "jsgt (Fin a) PInf = False"
| "jsgt (Fin a) NInf = True"

text \<open>Strict equality \<open>x === y\<close> of two numbers: NaN equals nothing.\<close>

definition jseq :: "jsnum \<Rightarrow> jsnum \<Rightarrow> bool" where
  "jseq x y = (x \<noteq> NaN \<and> x = y)"

text \<open>A number is truthy unless it is zero or NaN; \<open>x || y\<close> is \<open>x\<close> when \<open>x\<close> is truthy.\<close>

definition truthy :: "jsnum \<Rightarrow> bool" where
  "truthy x = (x \<noteq> NaN \<and> x \<noteq> Fin 0)"

definition jsor :: "jsnum \<Rightarrow> jsnum \<Rightarrow> jsnum" where
  "jsor x y = (if truthy x then x else y)"

text \<open>\<open>Math.max\<close> and \<open>Math.min\<close> of two numbers: NaN when an operand is NaN.\<close>

definition jsmax :: "jsnum \<Rightarrow> jsnum \<Rightarrow> jsnum" where
  "jsmax x y = (if x = NaN \<or> y = NaN then NaN else if jsgt y x then y else x)"

definition jsmin :: "jsnum \<Rightarrow> jsnum \<Rightarrow> jsnum" where
  "jsmin x y = (if x = NaN \<or> y = NaN then NaN else if jsgt x y then y else x)"

fun jsfloor :: "jsnum \<Rightarrow> jsnum" where
  "jsfloor (Fin a) = Fin (of_int \<lfloor>a\<rfloor>)"
| "jsfloor x = x"

fun jsceil :: "jsnum \<Rightarrow> jsnum" where
  "jsceil (Fin a) = Fin (of_int \<lceil>a\<rceil>)"
| "jsceil x = x"

text \<open>\<open>Math.round\<close> rounds to the nearest integer, a half towards plus infinity.\<close>

fun jsround :: "jsnum \<Rightarrow> jsnum" where
  "jsround (Fin a) = Fin (of_int \<lfloor>a + 1 / 2\<rfloor>)"
| "jsround x = x"

text \<open>The sum of a list as \<open>reduce((sum, x) => sum + x, 0)\<close> computes it, left to right.\<close>

definition jssum :: "jsnum list \<Rightarrow> jsnum" where
  "jssum xs = foldl jsadd (Fin 0) xs"

text \<open>
  A text is a list of characters; a character outside ASCII stands as the bytes of its
  UTF-8 encoding. The program only deletes the characters outside \<open>0-9 . -\<close>, searches
  for ASCII patterns and lower-cases before searching for the patterns
  \<open>approved\<close>, \<open>supervisor\<close> and \<open>claim query\<close>; on each of these the byte view and the
  code-unit view of the host agree.
\<close>

definition isDigit :: "char \<Rightarrow> bool" where
  "isDigit c = (48 \<le> (of_char c :: nat) \<and> (of_char c :: nat) \<le> 57)"

definition digitVal :: "char \<Rightarrow> nat" where
  "digitVal c = of_char c - 48"

definition natOfDigits :: "string \<Rightarrow> nat" where
  "natOfDigits ds = foldl (\<lambda>n c. 10 * n + digitVal c) 0 ds"

fun startsWith :: "string \<Rightarrow> string \<Rightarrow> bool" where
  "startsWith s [] = True"
| "startsWith [] (p # ps) = False"
| "startsWith (c # cs) (p # ps) = (c = p \<and> startsWith cs ps)"

text \<open>\<open>s.includes(p)\<close>: the pattern occurs in the text as a contiguous run.\<close>

fun includesStr :: "string \<Rightarrow> string \<Rightarrow> bool" where
  "includesStr [] p = (p = [])"
| "includesStr (c # cs) p = (startsWith (c # cs) p \<or> includesStr cs p)"

definition lowerChar :: "char \<Rightarrow> char" where
  "lowerChar c =
     (if 65 \<le> (of_char c :: nat) \<and> (of_char c :: nat) \<le> 90
      then char_of ((of_char c :: nat) + 32) else c)"

definition toLowerCase :: "string \<Rightarrow> string" where
  "toLowerCase s = map lowerChar s"

text \<open>Joining texts with a separator, as \<open>Array.prototype.join\<close>.\<close>

fun join :: "string \<Rightarrow> string list \<Rightarrow> string" where
  "join sep [] = []"
| "join sep [x] = x"
| "join sep (x # y # ys) = x @ sep @ join sep (y # ys)"

section \<open>Input normalizer\<close>

text \<open>
  \<open>parseFloat\<close> on a text made of digits, dots and minus signs only (all that is left
  after the cleaning in \<open>parseNumber\<close>): the longest prefix of the form
  \<open>-? digits (. digits?)?\<close> or \<open>-? . digits\<close> is read as a decimal number; when there is
  no such prefix the result is NaN.
\<close>

definition parseFloat :: "string \<Rightarrow> jsnum" where
  "parseFloat s =
     (let neg = startsWith s ''-'';
          r = (if neg then tl s else s);
          ip = takeWhile isDigit r;
          rest = dropWhile isDigit r;
          fp = (if startsWith rest ''.'' then takeWhile isDigit (tl rest) else [])
      in if ip = [] \<and> fp = [] then NaN
         else let v = of_nat (natOfDigits ip) + of_nat (natOfDigits fp) / 10 ^ length fp
              in Fin (if neg then - v else v))"

definition isNumChar :: "char \<Rightarrow> bool" where
  "isNumChar c = (isDigit c \<or> c = CHR ''.'' \<or> c = CHR ''-'')"

text \<open>
  \<open>parseNumber(value)\<close>: an absent or empty value is 0; otherwise the characters outside
  \<open>[0-9.-]\<close> are deleted and the rest goes to \<open>parseFloat\<close>, with \<open>|| 0\<close> on the result.
\<close>

definition parseNumber :: "string option \<Rightarrow> jsnum" where
  "parseNumber v =
     (case v of
        None \<Rightarrow> Fin 0
      | Some s \<Rightarrow>
          if s = [] then Fin 0
          else (let cleaned = filter isNumChar s in jsor (parseFloat cleaned) (Fin 0)))"


text \<open>
  A raw record is one spreadsheet row: a dictionary from column names to texts. A column
  that the row lacks is \<open>None\<close> (\<open>undefined\<close> in the program).
\<close>

type_synonym rawRow = "string \<rightharpoonup> string"

text \<open>A text value is truthy when it is there and not empty.\<close>

definition strTruthy :: "string option \<Rightarrow> bool" where
  "strTruthy v = (case v of None \<Rightarrow> False | Some s \<Rightarrow> s \<noteq> [])"

text \<open>\<open>v && v.includes(p)\<close> for a text value \<open>v\<close>.\<close>

definition statusIncludes :: "string option \<Rightarrow> string \<Rightarrow> bool" where
  "statusIncludes v p = (case v of None \<Rightarrow> False | Some s \<Rightarrow> s \<noteq> [] \<and> includesStr s p)"

text \<open>
  \<open>parseDate\<close> answers \<open>null\<close> for an absent or empty value. For any other text it
  trims, tries the custom day-month-year pattern and falls back on the host's date
  parser, whose result depends on the host; that part is the parameter \<open>textDate\<close>,
  which gives the time value (milliseconds) of the date, or \<open>None\<close> for \<open>null\<close>.
\<close>

definition parseDate :: "(string \<Rightarrow> int option) \<Rightarrow> string option \<Rightarrow> int option" where
  "parseDate textDate v =
     (case v of None \<Rightarrow> None | Some s \<Rightarrow> if s = [] then None else textDate s)"

text \<open>
  A normalized record: the raw row (\<open>others\<close> keeps the columns that the normalizer only
  copies) with the numeric and date columns replaced and the two derived columns added.
\<close>

record normRow =
  TID :: "string option"
  Status :: "string option"
  PkgCode :: "string option"
  PkgName :: "string option"
  PkgRate :: jsnum
  ApprovedAmount :: jsnum
  QueryRaised :: jsnum
  DateOfAdmission :: "int option"
  DateOfDischarge :: "int option"
  PaymentDate :: "int option"
  DaysToPayment :: jsnum
  ActualPaidAmount :: jsnum
  others :: rawRow

text \<open>The number of whole days between two time values, \<open>Math.floor((b - a) / 86400000)\<close>.\<close>

definition daysBetween :: "int \<Rightarrow> int \<Rightarrow> jsnum" where
  "daysBetween a b = jsfloor (jsdiv (Fin (of_int (b - a))) (Fin (1000 * 60 * 60 * 24)))"

definition preprocessRow :: "(string \<Rightarrow> int option) \<Rightarrow> rawRow \<Rightarrow> normRow" where
  "preprocessRow textDate row =
     (let pkgRate = parseNumber (row ''Pkg Rate'');
          approved = parseNumber (row ''Approved Amount'');
          query = parseNumber
            (if strTruthy (row ''Query Raised'') then row ''Query Raised'' else Some ''0'');
          admission = parseDate textDate (row ''Date of Admission'');
          discharge = parseDate textDate (row ''Date of Discharge'');
          payment = parseDate textDate (row ''Payment Date'');
          days =
            (if strTruthy (row ''Days to Payment'') then parseNumber (row ''Days to Payment'')
             else (case discharge of
                     None \<Rightarrow> Fin 0
                   | Some d \<Rightarrow>
                       (case payment of
                          None \<Rightarrow> Fin 0
                        | Some p \<Rightarrow> jsmax (Fin 0) (daysBetween d p))));
          paid = (if statusIncludes (row ''Status'') ''Claim Paid'' then approved else Fin 0)
      in \<lparr> TID = row ''TID'', Status = row ''Status'',
           PkgCode = row ''Pkg Code'', PkgName = row ''Pkg Name'',
           PkgRate = pkgRate, ApprovedAmount = approved, QueryRaised = query,
           DateOfAdmission = admission, DateOfDischarge = discharge, PaymentDate = payment,
           DaysToPayment = days, ActualPaidAmount = paid, others = row \<rparr>)"

definition preprocessMAAClaims :: "(string \<Rightarrow> int option) \<Rightarrow> rawRow list \<Rightarrow> normRow list" where
  "preprocessMAAClaims textDate data = map (preprocessRow textDate) data"

section \<open>Claim aggregator\<close>

record validationResult =
  valid :: bool
  error :: "string option"

definition requiredColumns :: "string list" where
  "requiredColumns =
     [''TID'', ''Patient Name'', ''Hospital Name'', ''Status'', ''Pkg Rate'', ''Approved Amount'']"

text \<open>\<open>col in sampleRow\<close> holds when the row has the column, whatever its value.\<close>

definition validateMAAClaims :: "rawRow list \<Rightarrow> validationResult" where
  "validateMAAClaims data =
     (case data of
        [] \<Rightarrow> \<lparr> valid = False, error = Some ''No data found'' \<rparr>
      | sampleRow # rest \<Rightarrow>
          (let missingColumns = filter (\<lambda>col. sampleRow col = None) requiredColumns
           in if 0 < length missingColumns
              then \<lparr> valid = False,
                     error = Some (''Missing required columns: '' @ join '', '' missingColumns) \<rparr>
              else \<lparr> valid = True, error = None \<rparr>))"

record component =
  CPkgCode :: "string option"
  CPkgName :: "string option"
  ComponentPkgRate :: jsnum
  ComponentApprovedAmount :: jsnum

text \<open>A claim has every column of a normalized record and the list of its components.\<close>

record claim = normRow +
  components :: "component list"

datatype jserror = TypeError

text \<open>
  The accumulator of the reduction is an object keyed by TID, created as \<open>{}\<close>. Its own
  properties are kept here in the order of their creation. A read \<open>acc[tid]\<close> of a key
  that is no own property goes on to \<open>Object.prototype\<close>, which answers for the names
  below (with a function, or with the prototype itself for \<open>__proto__\<close>) and with
  \<open>undefined\<close> for every other name.
\<close>

type_synonym groupAcc = "(string \<times> claim) list"

definition objectPrototypeKeys :: "string list" where
  "objectPrototypeKeys =
     [''constructor'', ''__defineGetter__'', ''__defineSetter__'', ''hasOwnProperty'',
      ''__lookupGetter__'', ''__lookupSetter__'', ''isPrototypeOf'', ''propertyIsEnumerable'',
      ''toString'', ''valueOf'', ''__proto__'', ''toLocaleString'']"

text \<open>
  The claim that the first row of a TID seeds: every column of the row (\<open>...row\<close>), with
  the four accumulators at 0 and an empty list of components.
\<close>

definition initClaim :: "normRow \<Rightarrow> claim" where
  "initClaim row =
     (normRow.extend row (claim.fields []))
       \<lparr> PkgRate := Fin 0, ApprovedAmount := Fin 0, ActualPaidAmount := Fin 0,
         QueryRaised := Fin 0 \<rparr>"

text \<open>One row added to the claim of its TID: a new component, sums and maxima.\<close>

definition addRow :: "claim \<Rightarrow> normRow \<Rightarrow> claim" where
  "addRow c row =
     c \<lparr> components := components c @
            [\<lparr> CPkgCode = PkgCode row, CPkgName = PkgName row,
               ComponentPkgRate = PkgRate row,
               ComponentApprovedAmount = ApprovedAmount row \<rparr>],
         PkgRate := jsadd (PkgRate c) (PkgRate row),
         ApprovedAmount := jsadd (ApprovedAmount c) (ApprovedAmount row),
         ActualPaidAmount := jsadd (ActualPaidAmount c) (ActualPaidAmount row),
         QueryRaised := jsmax (QueryRaised c) (QueryRaised row),
         DaysToPayment := jsmax (DaysToPayment c) (DaysToPayment row) \<rparr>"

text \<open>
  The body of the reduction. A row with a falsy TID leaves the accumulator as it is.
  Where \<open>acc[tid]\<close> is falsy the claim is created; then the row is added to \<open>acc[tid]\<close>.
  For a TID that \<open>Object.prototype\<close> answers for, \<open>acc[tid]\<close> is truthy, no claim is
  created, \<open>acc[tid].components\<close> is \<open>undefined\<close> and the \<open>push\<close> raises a TypeError.
\<close>

definition groupStep :: "groupAcc \<Rightarrow> normRow \<Rightarrow> jserror + groupAcc" where
  "groupStep acc row =
     (case TID row of
        None \<Rightarrow> Inr acc
      | Some tid \<Rightarrow>
          if tid = [] then Inr acc
          else (let acc1 =
                      (if map_of acc tid = None \<and> tid \<notin> set objectPrototypeKeys
                       then acc @ [(tid, initClaim row)] else acc)
                in case map_of acc1 tid of
                     None \<Rightarrow> Inl TypeError
                   | Some c \<Rightarrow> Inr (AList.update tid (addRow c row) acc1)))"

fun groupReduce :: "groupAcc \<Rightarrow> normRow list \<Rightarrow> jserror + groupAcc" where
  "groupReduce acc [] = Inr acc"
| "groupReduce acc (row # rows) =
     (case groupStep acc row of
        Inl e \<Rightarrow> Inl e
      | Inr acc' \<Rightarrow> groupReduce acc' rows)"

text \<open>
  \<open>Object.values\<close> lists the own properties in the order of the language: first the keys
  that are array indices (the canonical decimal numerals of the integers from 0 to
  \<open>2^32 - 2\<close>), in ascending numeric order, then every other key in the order of creation.
\<close>

definition isArrayIndex :: "string \<Rightarrow> bool" where
  "isArrayIndex k =
     (k \<noteq> [] \<and> list_all isDigit k \<and> (k = ''0'' \<or> \<not> startsWith k ''0'')
      \<and> natOfDigits k \<le> 4294967294)"

definition objectValues :: "groupAcc \<Rightarrow> claim list" where
  "objectValues acc =
     map snd (sort_key (\<lambda>kv. natOfDigits (fst kv)) (filter (\<lambda>kv. isArrayIndex (fst kv)) acc)
              @ filter (\<lambda>kv. \<not> isArrayIndex (fst kv)) acc)"

definition groupDataByTID :: "normRow list \<Rightarrow> jserror + claim list" where
  "groupDataByTID data =
     (case groupReduce [] data of
        Inl e \<Rightarrow> Inl e
      | Inr groupedByTID \<Rightarrow> Inr (objectValues groupedByTID))"


section \<open>Metrics calculator\<close>

text \<open>
  The result of the calculator. The counts are lengths of arrays, hence natural numbers.
  The text \<open>dateRangeText\<close>, which the host formats from the two dates by its locale, is
  left out.
\<close>

record metrics =
  totalClaims :: nat
  paidClaims :: nat
  approvedClaims :: nat
  rejectedClaims :: nat
  pendingClaims :: nat
  totalClaimValue :: jsnum
  totalApprovedAmount :: jsnum
  totalPaidAmount :: jsnum
  averageClaimAmount :: jsnum
  rejectedClaimsAmount :: jsnum
  approvedUnpaidAmount :: jsnum
  revenueStuckInQuery :: jsnum
  denialRate :: jsnum
  queryIncidence :: jsnum
  firstPassRate :: jsnum
  collectionEfficiency :: jsnum
  revenueLeakageRate :: jsnum
  highValueClaimsPercentage :: jsnum
  avgLengthOfStay :: jsnum
  avgDaysToPayment :: jsnum
  claimsWithQuery :: nat
  claimsWithoutQuery :: nat
  minDate :: "int option"
  maxDate :: "int option"
  denialReasons :: "(string \<times> nat) list"
  healthScore :: jsnum
  monthsSpan :: jsnum

text \<open>A count (the length of an array) as a number.\<close>

definition num :: "nat \<Rightarrow> jsnum" where
  "num n = Fin (of_nat n)"

text \<open>The status tests of the calculator, on a text value that may be absent.\<close>

definition isPaid :: "string option \<Rightarrow> bool" where
  "isPaid st = statusIncludes st ''Claim Paid''"

definition isRejected :: "string option \<Rightarrow> bool" where
  "isRejected st =
     (case st of
        None \<Rightarrow> False
      | Some s \<Rightarrow> s \<noteq> [] \<and> (s = ''Claim Rejected (Supervisor)'' \<or> s = ''Claim Rejected (Analyser)''))"

definition isApprovedUnpaid :: "string option \<Rightarrow> bool" where
  "isApprovedUnpaid st =
     (case st of
        None \<Rightarrow> False
      | Some s \<Rightarrow> s \<noteq> [] \<and> includesStr (toLowerCase s) ''approved''
                  \<and> includesStr (toLowerCase s) ''supervisor'')"

definition isInQuery :: "string option \<Rightarrow> bool" where
  "isInQuery st =
     (case st of
        None \<Rightarrow> False
      | Some s \<Rightarrow> s \<noteq> [] \<and> includesStr (toLowerCase s) ''claim query'')"

text \<open>A date as a number in a subtraction; \<open>null\<close> counts as 0.\<close>

definition dateNum :: "int option \<Rightarrow> int" where
  "dateNum d = (case d of None \<Rightarrow> 0 | Some t \<Rightarrow> t)"

definition lengthOfStay :: "claim \<Rightarrow> jsnum" where
  "lengthOfStay row =
     jsmax (Fin 0) (daysBetween (dateNum (DateOfAdmission row)) (dateNum (DateOfDischarge row)))"

definition calculateProposalMetrics ::
    "(string \<Rightarrow> int option) \<Rightarrow> rawRow list \<Rightarrow> jserror + metrics" where
  "calculateProposalMetrics textDate data =
     (let processedData = preprocessMAAClaims textDate data in
      case groupDataByTID processedData of
        Inl e \<Rightarrow> Inl e
      | Inr groupedData \<Rightarrow>
     (let totalClaims' = length groupedData;
          totalClaimValue' = jssum (map PkgRate groupedData);
          totalApprovedAmount' = jssum (map ApprovedAmount groupedData);
          totalPaidAmount' =
            jssum (map ApprovedAmount (filter (\<lambda>row. isPaid (Status row)) processedData));
          paidClaims' = length (filter (\<lambda>row. isPaid (Status row)) groupedData);
          rejectedClaims' = length (filter (\<lambda>row. isRejected (Status row)) groupedData);
          pendingClaims' =
            length (filter (\<lambda>row. statusIncludes (Status row) ''Pending'') groupedData);
          approvedClaims' =
            length (filter (\<lambda>row. statusIncludes (Status row) ''Approved'') groupedData);
          claimsWithQuery' =
            length (filter (\<lambda>row. jsgt (QueryRaised row) (Fin 0)) groupedData);
          claimsWithoutQuery' =
            length (filter (\<lambda>row. jseq (QueryRaised row) (Fin 0)) groupedData);
          denialRate' =
            (if 0 < totalClaims'
             then jsmul (jsdiv (num rejectedClaims') (num totalClaims')) (Fin 100) else Fin 0);
          queryIncidence' =
            (if 0 < totalClaims'
             then jsmul (jsdiv (num claimsWithQuery') (num totalClaims')) (Fin 100) else Fin 0);
          firstPassRate' =
            (if 0 < totalClaims'
             then jsmul (jsdiv (num claimsWithoutQuery') (num totalClaims')) (Fin 100)
             else Fin 0);
          collectionEfficiency' =
            (if jsgt totalApprovedAmount' (Fin 0)
             then jsmul (jsdiv totalPaidAmount' totalApprovedAmount') (Fin 100) else Fin 0);
          rejectedClaimsAmount' =
            jssum (map PkgRate (filter (\<lambda>row. isRejected (Status row)) processedData));
          revenueLeakageRate' =
            (if jsgt totalClaimValue' (Fin 0)
             then jsmul (jsdiv rejectedClaimsAmount' totalClaimValue') (Fin 100) else Fin 0);
          approvedUnpaidAmount' =
            jssum (map ApprovedAmount
                     (filter (\<lambda>row. isApprovedUnpaid (Status row)) processedData));
          revenueStuckInQuery' =
            jssum (map PkgRate (filter (\<lambda>row. isInQuery (Status row)) processedData));
          averageClaimAmount' =
            (if 0 < totalClaims' then jsround (jsdiv totalClaimValue' (num totalClaims'))
             else Fin 0);
          claimsWithDates =
            filter (\<lambda>row. DateOfAdmission row \<noteq> None \<and> DateOfDischarge row \<noteq> None)
              groupedData;
          avgLengthOfStay' =
            (if 0 < length claimsWithDates
             then jsdiv (jssum (map lengthOfStay claimsWithDates)) (num (length claimsWithDates))
             else Fin 4);
          claimsWithPaymentDays =
            filter (\<lambda>row. truthy (DaysToPayment row) \<and> jsgt (DaysToPayment row) (Fin 0))
              groupedData;
          avgDaysToPayment' =
            (if 0 < length claimsWithPaymentDays
             then jsdiv (jssum (map DaysToPayment claimsWithPaymentDays))
                    (num (length claimsWithPaymentDays))
             else jsor avgLengthOfStay' (Fin 45));
          admissionDates = concat (map (\<lambda>row. case DateOfAdmission row of
                                                  None \<Rightarrow> [] | Some d \<Rightarrow> [d]) processedData);
          minDate' =
            (case admissionDates of
               [] \<Rightarrow> None
             | d0 # ds \<Rightarrow> Some (foldl (\<lambda>m d. if d < m then d else m) d0 admissionDates));
          maxDate' =
            (case admissionDates of
               [] \<Rightarrow> None
             | d0 # ds \<Rightarrow> Some (foldl (\<lambda>m d. if m < d then d else m) d0 admissionDates));
          monthsSpan' =
            (if minDate' \<noteq> None \<and> maxDate' \<noteq> None
             then jsmax (Fin 1)
                    (jsceil (jsdiv (Fin (of_int (dateNum maxDate' - dateNum minDate')))
                                   (Fin (1000 * 60 * 60 * 24 * 30))))
             else Fin 12);
          highValueClaims = length (filter (\<lambda>row. jsgt (PkgRate row) (Fin 100000)) groupedData);
          highValueClaimsPercentage' =
            (if 0 < totalClaims'
             then jsmul (jsdiv (num highValueClaims) (num totalClaims')) (Fin 100) else Fin 0)
      in Inr \<lparr> totalClaims = totalClaims', paidClaims = paidClaims',
               approvedClaims = approvedClaims', rejectedClaims = rejectedClaims',
               pendingClaims = pendingClaims',
               totalClaimValue = totalClaimValue', totalApprovedAmount = totalApprovedAmount',
               totalPaidAmount = totalPaidAmount', averageClaimAmount = averageClaimAmount',
               rejectedClaimsAmount = rejectedClaimsAmount',
               approvedUnpaidAmount = approvedUnpaidAmount',
               revenueStuckInQuery = revenueStuckInQuery',
               denialRate = denialRate', queryIncidence = queryIncidence',
               firstPassRate = firstPassRate', collectionEfficiency = collectionEfficiency',
               revenueLeakageRate = revenueLeakageRate',
               highValueClaimsPercentage = highValueClaimsPercentage',
               avgLengthOfStay = avgLengthOfStay', avgDaysToPayment = avgDaysToPayment',
               claimsWithQuery = claimsWithQuery', claimsWithoutQuery = claimsWithoutQuery',
               minDate = minDate', maxDate = maxDate',
               denialReasons =
                 [(''Missing or incorrect documentation'', 35), (''Authorization issues'', 25),
                  (''Coding errors'', 20), (''Eligibility verification failures'', 12),
                  (''Timely filing issues'', 8)],
               healthScore =
                 jsmin (Fin 90)
                   (jsadd (jsadd (jsmul (jssub (Fin 100) denialRate') (Fin (4 / 10)))
                                 (jsmul collectionEfficiency' (Fin (4 / 10))))
                          (jsmul (jssub (Fin 100) queryIncidence') (Fin (2 / 10)))),
               monthsSpan = monthsSpan' \<rparr>))"

section \<open>Projection engine\<close>



section \<open>Reference notions for the statements about the aggregator\<close>

text \<open>
  The definitions of this section are not taken from the code: \<open>tidsOf\<close> and
  \<open>firstSeen\<close> follow the words of the specification, \<open>ownKeyOrder\<close> the rule of the
  language for the order of property keys. The TIDs of an input are the values of the
  rows that have a non-empty TID, in input order.
\<close>

definition tidsOf :: "normRow list \<Rightarrow> string list" where
  "tidsOf rows = filter (\<lambda>t. t \<noteq> []) (List.map_filter TID rows)"

text \<open>The distinct elements of a list in the order of their first occurrence.\<close>

definition firstSeen :: "'a list \<Rightarrow> 'a list" where
  "firstSeen xs = rev (remdups (rev xs))"

text \<open>
  The order in which the language lists property keys that were created in the order
  \<open>ks\<close>: array indices ascending, then the other keys as created.
\<close>

definition ownKeyOrder :: "string list \<Rightarrow> string list" where
  "ownKeyOrder ks =
     sort_key natOfDigits (filter isArrayIndex ks) @ filter (\<lambda>k. \<not> isArrayIndex k) ks"


section \<open>Evaluation of the definitions on concrete inputs\<close>

lemmas num_eval = isDigit_def digitVal_def natOfDigits_def isNumChar_def parseFloat_def
  parseNumber_def jsor_def truthy_def

lemmas row_eval = preprocessRow_def preprocessMAAClaims_def parseDate_def strTruthy_def
  statusIncludes_def daysBetween_def Let_def

lemmas group_eval = groupDataByTID_def groupStep_def initClaim_def addRow_def objectValues_def
  isArrayIndex_def objectPrototypeKeys_def normRow.defs claim.defs

section \<open>The normalizer: \<open>parseNumber\<close>\<close>











section \<open>The aggregator: validation\<close>

lemma missing_empty_iff:
  "(filter (\<lambda>col. row col = None) requiredColumns = []) = (set requiredColumns \<subseteq> dom row)"
  by (auto simp: filter_empty_conv domIff)

lemma missing_filter:
  "filter (\<lambda>col. row col = None) requiredColumns = filter (\<lambda>c. c \<notin> dom row) requiredColumns"
  by (rule filter_cong) (auto simp: domIff)

text \<open>
  C5. Validation of an empty input fails with the error \<open>No data found\<close>. When the
  first record lacks one of the six required columns, validation fails with an error that
  lists the missing columns, in the order of the required list and separated by commas,
  and this error differs from the one for the empty input. When the first record has all
  six columns the result is valid, with no error. A first record that lacks only the
  column TID gives the error \<open>Missing required columns: TID\<close>.
\<close>

theorem validateMAAClaims_result:
  "validateMAAClaims [] = \<lparr> valid = False, error = Some ''No data found'' \<rparr>
   \<and> (\<not> {''TID'', ''Patient Name'', ''Hospital Name'', ''Status'', ''Pkg Rate'',
          ''Approved Amount''} \<subseteq> dom row \<longrightarrow>
        validateMAAClaims (row # rest) =
          \<lparr> valid = False,
            error = Some (''Missing required columns: '' @ join '', ''
              (filter (\<lambda>c. c \<notin> dom row)
                 [''TID'', ''Patient Name'', ''Hospital Name'', ''Status'', ''Pkg Rate'',
                  ''Approved Amount''])) \<rparr>
        \<and> error (validateMAAClaims (row # rest)) \<noteq> error (validateMAAClaims []))
   \<and> ({''TID'', ''Patient Name'', ''Hospital Name'', ''Status'', ''Pkg Rate'',
        ''Approved Amount''} \<subseteq> dom row \<longrightarrow>
        validateMAAClaims (row # rest) = \<lparr> valid = True, error = None \<rparr>)
   \<and> (row ''TID'' = None \<and> {''Patient Name'', ''Hospital Name'', ''Status'', ''Pkg Rate'',
        ''Approved Amount''} \<subseteq> dom row \<longrightarrow>
        validateMAAClaims (row # rest) =
          \<lparr> valid = False, error = Some ''Missing required columns: TID'' \<rparr>)"
proof -
  have cols: "set requiredColumns = {''TID'', ''Patient Name'', ''Hospital Name'', ''Status'',
      ''Pkg Rate'', ''Approved Amount''}"
    by (simp add: requiredColumns_def)
  have e: "validateMAAClaims [] = \<lparr> valid = False, error = Some ''No data found'' \<rparr>"
    by (simp add: validateMAAClaims_def)
  have m: "validateMAAClaims (row # rest) =
          \<lparr> valid = False,
            error = Some (''Missing required columns: '' @ join '', ''
              (filter (\<lambda>c. c \<notin> dom row) requiredColumns)) \<rparr>"
    if "\<not> set requiredColumns \<subseteq> dom row"
    using that missing_empty_iff [of row]
    by (simp add: validateMAAClaims_def Let_def missing_filter)
  have v: "validateMAAClaims (row # rest) = \<lparr> valid = True, error = None \<rparr>"
    if "set requiredColumns \<subseteq> dom row"
    using that missing_empty_iff [of row]
    by (simp add: validateMAAClaims_def Let_def)
  have t: "validateMAAClaims (row # rest) =
          \<lparr> valid = False, error = Some ''Missing required columns: TID'' \<rparr>"
    if "row ''TID'' = None" "{''Patient Name'', ''Hospital Name'', ''Status'', ''Pkg Rate'',
        ''Approved Amount''} \<subseteq> dom row"
    using that
    by (auto simp: validateMAAClaims_def Let_def requiredColumns_def domIff)
  have d: "error (validateMAAClaims (row # rest)) \<noteq> error (validateMAAClaims [])"
    if "\<not> set requiredColumns \<subseteq> dom row"
    by (simp add: m [OF that] e)
  show ?thesis
    using e m v t d unfolding cols
    by (simp add: requiredColumns_def)
qed

theorem validateMAAClaims_result_witness:
  "validateMAAClaims
     [[''Patient Name'' \<mapsto> ''Asha'', ''Hospital Name'' \<mapsto> ''City Hospital'',
       ''Status'' \<mapsto> ''Claim Paid'', ''Pkg Rate'' \<mapsto> ''1,00,000'',
       ''Approved Amount'' \<mapsto> ''1,00,000'']]
     = \<lparr> valid = False, error = Some ''Missing required columns: TID'' \<rparr>
   \<and> validateMAAClaims
     [[''TID'' \<mapsto> ''1'', ''Patient Name'' \<mapsto> ''Asha'', ''Hospital Name'' \<mapsto> ''City Hospital'',
       ''Status'' \<mapsto> ''Claim Paid'', ''Pkg Rate'' \<mapsto> ''1,00,000'',
       ''Approved Amount'' \<mapsto> ''1,00,000'']]
     = \<lparr> valid = True, error = None \<rparr>
   \<and> validateMAAClaims [[''TID'' \<mapsto> ''1'', ''Status'' \<mapsto> ''Claim Paid'']]
     = \<lparr> valid = False,
         error = Some ''Missing required columns: Patient Name, Hospital Name, Pkg Rate, Approved Amount'' \<rparr>"
proof -
  let ?a = "[''Patient Name'' \<mapsto> ''Asha'', ''Hospital Name'' \<mapsto> ''City Hospital'',
       ''Status'' \<mapsto> ''Claim Paid'', ''Pkg Rate'' \<mapsto> ''1,00,000'',
       ''Approved Amount'' \<mapsto> ''1,00,000'']"
  let ?b = "[''TID'' \<mapsto> ''1'', ''Patient Name'' \<mapsto> ''Asha'', ''Hospital Name'' \<mapsto> ''City Hospital'',
       ''Status'' \<mapsto> ''Claim Paid'', ''Pkg Rate'' \<mapsto> ''1,00,000'',
       ''Approved Amount'' \<mapsto> ''1,00,000'']"
  let ?c = "[''TID'' \<mapsto> ''1'', ''Status'' \<mapsto> ''Claim Paid'']"
  have a: "validateMAAClaims [?a]
     = \<lparr> valid = False, error = Some ''Missing required columns: TID'' \<rparr>"
    using validateMAAClaims_result [of ?a "[]"] by simp
  have b: "validateMAAClaims [?b] = \<lparr> valid = True, error = None \<rparr>"
    using validateMAAClaims_result [of ?b "[]"] by simp
  have c: "validateMAAClaims [?c]
     = \<lparr> valid = False,
         error = Some ''Missing required columns: Patient Name, Hospital Name, Pkg Rate, Approved Amount'' \<rparr>"
    using validateMAAClaims_result [of ?c "[]"] by simp
  from a b c show ?thesis by simp
qed

section \<open>The aggregator: grouping by TID\<close>

subsection \<open>First-seen order\<close>

lemma remdups_snoc: "remdups (ys @ [x]) = filter (\<lambda>y. y \<noteq> x) (remdups ys) @ [x]"
  by (induction ys) auto

lemma firstSeen_Nil: "firstSeen [] = []"
  by (simp add: firstSeen_def)

lemma firstSeen_Cons: "firstSeen (x # xs) = x # filter (\<lambda>y. y \<noteq> x) (firstSeen xs)"
  by (simp add: firstSeen_def remdups_snoc rev_filter)

lemma set_firstSeen: "set (firstSeen xs) = set xs"
  by (simp add: firstSeen_def)

lemma distinct_firstSeen: "distinct (firstSeen xs)"
  by (simp add: firstSeen_def)

lemma tidsOf_Nil: "tidsOf [] = []"
  by (simp add: tidsOf_def)

lemma tidsOf_Cons:
  "tidsOf (row # rows) =
     (case TID row of None \<Rightarrow> tidsOf rows
      | Some t \<Rightarrow> if t = [] then tidsOf rows else t # tidsOf rows)"
  by (simp add: tidsOf_def split: option.splits)

subsection \<open>One step of the reduction\<close>

lemma groupStep_skip: "\<not> strTruthy (TID row) \<Longrightarrow> groupStep acc row = Inr acc"
  by (auto simp: groupStep_def strTruthy_def split: option.splits)

lemma map_of_None_keys: "(map_of acc t = None) = (t \<notin> set (map fst acc))"
  by (simp add: map_of_eq_None_iff)

lemma groupStep_new:
  assumes "TID row = Some t" "t \<noteq> []" "t \<notin> set (map fst acc)" "t \<notin> set objectPrototypeKeys"
  shows "groupStep acc row = Inr (acc @ [(t, addRow (initClaim row) row)])"
proof -
  have n: "map_of acc t = None"
    using assms(3) by (simp add: map_of_None_keys)
  have u: "AList.update t v (acc @ [(t, w)]) = acc @ [(t, v)]" for v w
    using assms(3) by (induction acc) auto
  have m: "map_of (acc @ [(t, initClaim row)]) t = Some (initClaim row)"
    using n by (simp add: map_add_def)
  from assms n show ?thesis
    by (simp add: groupStep_def Let_def u m del: map_of_append)
qed

lemma groupStep_proto:
  assumes "TID row = Some t" "t \<noteq> []" "t \<notin> set (map fst acc)" "t \<in> set objectPrototypeKeys"
  shows "groupStep acc row = Inl TypeError"
proof -
  have n: "map_of acc t = None"
    using assms(3) by (simp add: map_of_None_keys)
  from assms n show ?thesis
    by (simp add: groupStep_def Let_def)
qed

lemma groupStep_old:
  assumes "TID row = Some t" "t \<noteq> []" "map_of acc t = Some c"
  shows "groupStep acc row = Inr (AList.update t (addRow c row) acc)"
  using assms by (simp add: groupStep_def Let_def)

lemma groupStep_cases:
  assumes "groupStep acc row = Inr acc'"
  obtains (skip) "\<not> strTruthy (TID row)" "acc' = acc"
  | (new) t where "TID row = Some t" "t \<noteq> []" "t \<notin> set (map fst acc)"
      "t \<notin> set objectPrototypeKeys" "acc' = acc @ [(t, addRow (initClaim row) row)]"
  | (old) t c where "TID row = Some t" "t \<noteq> []" "map_of acc t = Some c"
      "acc' = AList.update t (addRow c row) acc"
proof (cases "strTruthy (TID row)")
  case False
  with assms skip show ?thesis by (simp add: groupStep_skip)
next
  case True
  then obtain t where t: "TID row = Some t" "t \<noteq> []"
    by (auto simp: strTruthy_def split: option.splits)
  show ?thesis
  proof (cases "map_of acc t")
    case None
    then have k: "t \<notin> set (map fst acc)" by (simp add: map_of_None_keys)
    show ?thesis
    proof (cases "t \<in> set objectPrototypeKeys")
      case True
      with assms t k show ?thesis by (simp add: groupStep_proto)
    next
      case False
      with assms t k new show ?thesis by (simp add: groupStep_new)
    qed
  next
    case (Some c)
    with assms t old show ?thesis by (simp add: groupStep_old)
  qed
qed


subsection \<open>The keys after the reduction\<close>

lemma groupStep_keys:
  assumes "groupStep acc row = Inr acc'"
  shows "map fst acc' =
     map fst acc @ filter (\<lambda>t. t \<notin> set (map fst acc)) (tidsOf [row])"
  using assms
proof (cases rule: groupStep_cases)
  case skip
  then show ?thesis
    by (auto simp: tidsOf_Cons tidsOf_Nil strTruthy_def split: option.splits)
next
  case (new t)
  then show ?thesis
    by (simp add: tidsOf_Cons tidsOf_Nil)
next
  case (old t c)
  then have "t \<in> set (map fst acc)"
    by (metis map_of_None_keys option.distinct(1))
  with old show ?thesis
    by (simp add: tidsOf_Cons tidsOf_Nil update_keys)
qed

lemma groupReduce_keys:
  assumes "groupReduce acc rows = Inr acc'"
  shows "map fst acc' =
     map fst acc @ filter (\<lambda>t. t \<notin> set (map fst acc)) (firstSeen (tidsOf rows))"
  using assms
proof (induction rows arbitrary: acc)
  case Nil
  then show ?case by (simp add: tidsOf_Nil firstSeen_Nil)
next
  case (Cons row rows)
  from Cons.prems obtain acc1 where s: "groupStep acc row = Inr acc1"
    and r: "groupReduce acc1 rows = Inr acc'"
    by (auto split: sum.splits)
  note ih = Cons.IH [OF r]
  from s show ?case
  proof (cases rule: groupStep_cases)
    case skip
    then have "tidsOf (row # rows) = tidsOf rows"
      by (auto simp: tidsOf_Cons strTruthy_def split: option.splits)
    with ih skip show ?thesis by simp
  next
    case (new t)
    then have t: "tidsOf (row # rows) = t # tidsOf rows"
      by (simp add: tidsOf_Cons)
    have "filter (\<lambda>x. x \<noteq> t \<and> x \<notin> fst ` set acc) (firstSeen (tidsOf rows))
        = filter (\<lambda>x. x \<notin> fst ` set acc \<and> x \<noteq> t) (firstSeen (tidsOf rows))"
      by (rule filter_cong) auto
    with ih new show ?thesis
      unfolding t by (simp add: firstSeen_Cons)
  next
    case (old t c)
    then have k: "t \<in> set (map fst acc)"
      by (metis map_of_None_keys option.distinct(1))
    from old have t: "tidsOf (row # rows) = t # tidsOf rows"
      by (simp add: tidsOf_Cons)
    have f: "filter (\<lambda>x. x \<noteq> t \<and> x \<notin> fst ` set acc) (firstSeen (tidsOf rows))
        = filter (\<lambda>x. x \<notin> fst ` set acc) (firstSeen (tidsOf rows))"
      using k by (intro filter_cong) auto
    from ih old k show ?thesis
      unfolding t by (simp add: firstSeen_Cons update_keys f)
  qed
qed

lemma groupReduce_total:
  assumes "\<forall>t\<in>set (tidsOf rows). t \<notin> set objectPrototypeKeys"
  shows "\<exists>acc'. groupReduce acc rows = Inr acc'"
  using assms
proof (induction rows arbitrary: acc)
  case Nil
  then show ?case by simp
next
  case (Cons row rows)
  have "\<exists>acc1. groupStep acc row = Inr acc1"
  proof (cases "strTruthy (TID row)")
    case False
    then show ?thesis by (simp add: groupStep_skip)
  next
    case True
    then obtain t where t: "TID row = Some t" "t \<noteq> []"
      by (auto simp: strTruthy_def split: option.splits)
    with Cons.prems have p: "t \<notin> set objectPrototypeKeys"
      by (simp add: tidsOf_Cons)
    show ?thesis
    proof (cases "map_of acc t")
      case None
      then have "t \<notin> set (map fst acc)" by (simp add: map_of_None_keys)
      with t p show ?thesis by (simp add: groupStep_new)
    next
      case (Some c)
      with t show ?thesis by (simp add: groupStep_old)
    qed
  qed
  then obtain acc1 where s: "groupStep acc row = Inr acc1" ..
  from Cons.prems have "\<forall>t\<in>set (tidsOf rows). t \<notin> set objectPrototypeKeys"
    by (auto simp: tidsOf_Cons split: option.splits if_splits)
  from Cons.IH [OF this, of acc1] s show ?case by simp
qed

lemma groupReduce_filter:
  "groupReduce acc (filter (\<lambda>r. strTruthy (TID r)) rows) = groupReduce acc rows"
  by (induction rows arbitrary: acc) (auto simp: groupStep_skip split: sum.splits)

subsection \<open>Invariants of the claims\<close>

lemma set_update_subset:
  "set (AList.update k v al) \<subseteq> insert (k, v) (set al)"
  by (induction al) auto

lemma groupReduce_invariant:
  assumes "groupReduce acc rows = Inr acc'"
    and "\<forall>(k, c)\<in>set acc. P k c"
    and init: "\<And>row t. row \<in> set rows \<Longrightarrow> TID row = Some t \<Longrightarrow> t \<noteq> [] \<Longrightarrow>
                 P t (addRow (initClaim row) row)"
    and step: "\<And>row t c. row \<in> set rows \<Longrightarrow> TID row = Some t \<Longrightarrow> P t c \<Longrightarrow>
                 P t (addRow c row)"
  shows "\<forall>(k, c)\<in>set acc'. P k c"
  using assms(1,2) init step
proof (induction rows arbitrary: acc)
  case Nil
  then show ?case by simp
next
  case (Cons row rows)
  from Cons.prems(1) obtain acc1 where s: "groupStep acc row = Inr acc1"
    and r: "groupReduce acc1 rows = Inr acc'"
    by (auto split: sum.splits)
  have "\<forall>(k, c)\<in>set acc1. P k c"
    using s
  proof (cases rule: groupStep_cases)
    case skip
    with Cons.prems(2) show ?thesis by simp
  next
    case (new t)
    with Cons.prems(2) Cons.prems(3) [of row t] show ?thesis by simp
  next
    case (old t c)
    then have "(t, c) \<in> set acc" by (simp add: map_of_SomeD)
    with Cons.prems(2) have "P t c" by auto
    with old Cons.prems(4) [of row t c] have "P t (addRow c row)" by simp
    with Cons.prems(2) old set_update_subset [of t "addRow c row" acc] show ?thesis
      by auto
  qed
  from Cons.IH [OF r this] Cons.prems(3,4) show ?case by simp
qed


subsection \<open>The order of the values\<close>

lemma map_fst_insort_key:
  "map fst (insort_key (\<lambda>kv. f (fst kv)) x ys) = insort_key f (fst x) (map fst ys)"
  by (induction ys) simp_all

lemma map_fst_sort_key:
  "map fst (sort_key (\<lambda>kv. f (fst kv)) xs) = sort_key f (map fst xs)"
  by (induction xs) (simp_all add: map_fst_insort_key)

lemma map_fst_filter:
  "map fst (filter (\<lambda>kv. P (fst kv)) xs) = filter P (map fst xs)"
  by (induction xs) simp_all

lemma objectValues_keys:
  assumes "\<forall>(k, c)\<in>set acc. TID c = Some k"
  shows "map TID (objectValues acc) = map Some (ownKeyOrder (map fst acc))"
proof -
  define ord where
    "ord = sort_key (\<lambda>kv. natOfDigits (fst kv)) (filter (\<lambda>kv. isArrayIndex (fst kv)) acc)
              @ filter (\<lambda>kv. \<not> isArrayIndex (fst kv)) acc"
  have "set ord \<subseteq> set acc" by (auto simp: ord_def)
  with assms have "\<forall>kv\<in>set ord. TID (snd kv) = Some (fst kv)" by fastforce
  then have a: "map TID (map snd ord) = map Some (map fst ord)"
    by simp
  have b: "map fst ord = ownKeyOrder (map fst acc)"
    using map_fst_filter [of isArrayIndex acc] map_fst_filter [of "\<lambda>k. \<not> isArrayIndex k" acc]
    by (simp add: ord_def ownKeyOrder_def map_fst_sort_key)
  have "objectValues acc = map snd ord"
    by (simp add: objectValues_def ord_def)
  with a b show ?thesis by simp
qed


lemma set_ownKeyOrder: "set (ownKeyOrder ks) = set ks"
  by (auto simp: ownKeyOrder_def)

lemma distinct_ownKeyOrder: "distinct ks \<Longrightarrow> distinct (ownKeyOrder ks)"
  by (auto simp: ownKeyOrder_def)

lemma ownKeyOrder_no_index: "\<forall>k\<in>set ks. \<not> isArrayIndex k \<Longrightarrow> ownKeyOrder ks = ks"
proof -
  assume a: "\<forall>k\<in>set ks. \<not> isArrayIndex k"
  then have "filter isArrayIndex ks = []" by (simp add: filter_empty_conv)
  moreover from a have "filter (\<lambda>k. \<not> isArrayIndex k) ks = ks" by (simp add: filter_id_conv)
  ultimately show ?thesis by (simp add: ownKeyOrder_def)
qed

lemma TID_addRow: "TID (addRow c row) = TID c"
  by (simp add: addRow_def)

lemma TID_initClaim: "TID (initClaim row) = TID row"
  by (simp add: initClaim_def normRow.defs claim.defs)

text \<open>
  C1, as the code has it. Let no TID of the input be a name that \<open>Object.prototype\<close>
  answers for. Then \<open>groupDataByTID\<close> returns a list of claims with exactly one claim
  for each distinct non-empty TID: the claims whose TID is an array index come first, in
  ascending numeric order, and the claims of the other TIDs follow in the order in which
  these TIDs first appear in the input. Rows whose TID is absent or empty contribute
  nothing: the result is the same without them. When no TID is an array index, the
  claims stand in the order in which their TIDs first appear.
\<close>

theorem groupDataByTID_claims_order:
  assumes "\<forall>t\<in>set (tidsOf rows). t \<notin> set objectPrototypeKeys"
  shows "\<exists>cs. groupDataByTID rows = Inr cs
      \<and> map TID cs = map Some (ownKeyOrder (firstSeen (tidsOf rows)))
      \<and> distinct (map TID cs)
      \<and> set (map TID cs) = Some ` set (tidsOf rows)
      \<and> groupDataByTID (filter (\<lambda>r. strTruthy (TID r)) rows) = Inr cs
      \<and> ((\<forall>t\<in>set (tidsOf rows). \<not> isArrayIndex t) \<longrightarrow>
           map TID cs = map Some (firstSeen (tidsOf rows)))"
proof -
  from groupReduce_total [OF assms] obtain acc where r: "groupReduce [] rows = Inr acc"
    by blast
  have k: "map fst acc = firstSeen (tidsOf rows)"
    using groupReduce_keys [OF r] by simp
  have "\<forall>(k, c)\<in>set acc. TID c = Some k"
    using r by (rule groupReduce_invariant) (simp_all add: TID_addRow TID_initClaim)
  then have o: "map TID (objectValues acc) = map Some (ownKeyOrder (firstSeen (tidsOf rows)))"
    by (simp add: objectValues_keys k)
  have g: "groupDataByTID rows = Inr (objectValues acc)"
    by (simp add: groupDataByTID_def r)
  have f: "groupDataByTID (filter (\<lambda>r. strTruthy (TID r)) rows) = Inr (objectValues acc)"
    by (simp add: groupDataByTID_def groupReduce_filter r)
  have d: "distinct (map TID (objectValues acc))"
    unfolding o by (simp add: distinct_map distinct_ownKeyOrder distinct_firstSeen)
  have s: "set (map TID (objectValues acc)) = Some ` set (tidsOf rows)"
    unfolding o by (simp add: set_ownKeyOrder set_firstSeen)
  have n: "map TID (objectValues acc) = map Some (firstSeen (tidsOf rows))"
    if "\<forall>t\<in>set (tidsOf rows). \<not> isArrayIndex t"
    unfolding o using that by (simp add: ownKeyOrder_no_index set_firstSeen)
  from g o d s f n show ?thesis by blast
qed

theorem groupDataByTID_claims_order_witness:
  "\<exists>cs. groupDataByTID
          [preprocessRow (\<lambda>s. None) [''TID'' \<mapsto> ''T2'', ''Pkg Rate'' \<mapsto> ''100''],
           preprocessRow (\<lambda>s. None) [''Pkg Rate'' \<mapsto> ''7''],
           preprocessRow (\<lambda>s. None) [''TID'' \<mapsto> ''10'', ''Pkg Rate'' \<mapsto> ''200''],
           preprocessRow (\<lambda>s. None) [''TID'' \<mapsto> ''T2'', ''Pkg Rate'' \<mapsto> ''300''],
           preprocessRow (\<lambda>s. None) [''TID'' \<mapsto> '''', ''Pkg Rate'' \<mapsto> ''8''],
           preprocessRow (\<lambda>s. None) [''TID'' \<mapsto> ''9'', ''Pkg Rate'' \<mapsto> ''400'']] = Inr cs
        \<and> map TID cs = [Some ''9'', Some ''10'', Some ''T2'']"
proof -
  let ?rows = "[preprocessRow (\<lambda>s. None) [''TID'' \<mapsto> ''T2'', ''Pkg Rate'' \<mapsto> ''100''],
           preprocessRow (\<lambda>s. None) [''Pkg Rate'' \<mapsto> ''7''],
           preprocessRow (\<lambda>s. None) [''TID'' \<mapsto> ''10'', ''Pkg Rate'' \<mapsto> ''200''],
           preprocessRow (\<lambda>s. None) [''TID'' \<mapsto> ''T2'', ''Pkg Rate'' \<mapsto> ''300''],
           preprocessRow (\<lambda>s. None) [''TID'' \<mapsto> '''', ''Pkg Rate'' \<mapsto> ''8''],
           preprocessRow (\<lambda>s. None) [''TID'' \<mapsto> ''9'', ''Pkg Rate'' \<mapsto> ''400'']]"
  have t: "tidsOf ?rows = [''T2'', ''10'', ''T2'', ''9'']"
    by (simp add: tidsOf_def preprocessRow_def Let_def)
  have h: "\<forall>t\<in>set (tidsOf ?rows). t \<notin> set objectPrototypeKeys"
    unfolding t by (simp add: objectPrototypeKeys_def)
  have o: "ownKeyOrder (firstSeen (tidsOf ?rows)) = [''9'', ''10'', ''T2'']"
    unfolding t
    by (simp add: ownKeyOrder_def firstSeen_def isArrayIndex_def isDigit_def natOfDigits_def
        digitVal_def)
  from groupDataByTID_claims_order [OF h] obtain cs where
    "groupDataByTID ?rows = Inr cs"
    "map TID cs = map Some (ownKeyOrder (firstSeen (tidsOf ?rows)))"
    by blast
  then show ?thesis unfolding o by simp
qed

text \<open>
  The claim as the specification words it fails on the code. The rows with the TIDs 2 and
  1, in this order, give the claims in the order 1, 2, while the order of first appearance
  is 2, 1; and a row whose TID is \<open>toString\<close> raises a TypeError instead of giving a claim.
\<close>

theorem groupDataByTID_first_seen_counterexample:
  "map_sum id (map TID)
     (groupDataByTID
        [preprocessRow (\<lambda>s. None) [''TID'' \<mapsto> ''2'', ''Pkg Rate'' \<mapsto> ''100''],
         preprocessRow (\<lambda>s. None) [''TID'' \<mapsto> ''1'', ''Pkg Rate'' \<mapsto> ''200'']])
     = Inr [Some ''1'', Some ''2'']
   \<and> firstSeen (tidsOf
        [preprocessRow (\<lambda>s. None) [''TID'' \<mapsto> ''2'', ''Pkg Rate'' \<mapsto> ''100''],
         preprocessRow (\<lambda>s. None) [''TID'' \<mapsto> ''1'', ''Pkg Rate'' \<mapsto> ''200'']])
     = [''2'', ''1'']
   \<and> groupDataByTID
        [preprocessRow (\<lambda>s. None) [''TID'' \<mapsto> ''toString'', ''Pkg Rate'' \<mapsto> ''100'']]
     = Inl TypeError"
proof -
  have a: "map_sum id (map TID)
     (groupDataByTID
        [preprocessRow (\<lambda>s. None) [''TID'' \<mapsto> ''2'', ''Pkg Rate'' \<mapsto> ''100''],
         preprocessRow (\<lambda>s. None) [''TID'' \<mapsto> ''1'', ''Pkg Rate'' \<mapsto> ''200'']])
     = Inr [Some ''1'', Some ''2'']"
    by (simp add: num_eval row_eval group_eval)
  have b: "firstSeen (tidsOf
        [preprocessRow (\<lambda>s. None) [''TID'' \<mapsto> ''2'', ''Pkg Rate'' \<mapsto> ''100''],
         preprocessRow (\<lambda>s. None) [''TID'' \<mapsto> ''1'', ''Pkg Rate'' \<mapsto> ''200'']])
     = [''2'', ''1'']"
    by (simp add: tidsOf_def firstSeen_def preprocessRow_def Let_def)
  have c: "groupDataByTID
        [preprocessRow (\<lambda>s. None) [''TID'' \<mapsto> ''toString'', ''Pkg Rate'' \<mapsto> ''100'']]
     = Inl TypeError"
    by (simp add: num_eval row_eval group_eval)
  from a b c show ?thesis by blast
qed

subsection \<open>Sums of the components\<close>

lemma jssum_snoc: "jssum (xs @ [x]) = jsadd (jssum xs) x"
  by (simp add: jssum_def)






section \<open>The normalizer: derived columns\<close>

lemma startsWith_iff: "startsWith s p = (\<exists>v. s = p @ v)"
  by (induction s p rule: startsWith.induct) auto

lemma includesStr_iff: "includesStr s p = (\<exists>u v. s = u @ p @ v)"
proof (induction s)
  case Nil
  then show ?case by simp
next
  case (Cons c cs)
  show ?case
  proof
    assume "includesStr (c # cs) p"
    then consider "startsWith (c # cs) p" | "includesStr cs p" by auto
    then show "\<exists>u v. c # cs = u @ p @ v"
    proof cases
      case 1
      then obtain v where "c # cs = p @ v" by (auto simp: startsWith_iff)
      then have "c # cs = [] @ p @ v" by simp
      then show ?thesis by blast
    next
      case 2
      with Cons obtain u v where "cs = u @ p @ v" by auto
      then have "c # cs = (c # u) @ p @ v" by simp
      then show ?thesis by blast
    qed
  next
    assume "\<exists>u v. c # cs = u @ p @ v"
    then obtain u v where e: "c # cs = u @ p @ v" by blast
    show "includesStr (c # cs) p"
    proof (cases u)
      case Nil
      with e have "startsWith (c # cs) p" by (auto simp: startsWith_iff)
      then show ?thesis by simp
    next
      case (Cons a u')
      with e have "cs = u' @ p @ v" by simp
      with Cons.IH have "includesStr cs p" by blast
      then show ?thesis by simp
    qed
  qed
qed

lemma statusIncludes_iff:
  "statusIncludes st p = (\<exists>u v. st = Some (u @ p @ v) \<and> u @ p @ v \<noteq> [])"
  by (cases st) (auto simp: statusIncludes_def includesStr_iff)




lemma paid_status_iff:
  "(\<exists>u v. st = Some (u @ ''Claim Paid'' @ v)) = statusIncludes st ''Claim Paid''"
  by (simp add: statusIncludes_iff)





section \<open>The metrics calculator\<close>

subsection \<open>The fields of the result\<close>

lemma cpm_fields:
  assumes "calculateProposalMetrics td data = Inr m"
  shows "\<exists>cs. groupDataByTID (preprocessMAAClaims td data) = Inr cs
    \<and> totalClaims m = length cs
    \<and> totalClaimValue m = jssum (map PkgRate cs)
    \<and> totalApprovedAmount m = jssum (map ApprovedAmount cs)
    \<and> totalPaidAmount m =
        jssum (map ApprovedAmount
                 (filter (\<lambda>row. isPaid (Status row)) (preprocessMAAClaims td data)))
    \<and> rejectedClaimsAmount m =
        jssum (map PkgRate
                 (filter (\<lambda>row. isRejected (Status row)) (preprocessMAAClaims td data)))
    \<and> approvedUnpaidAmount m =
        jssum (map ApprovedAmount
                 (filter (\<lambda>row. isApprovedUnpaid (Status row)) (preprocessMAAClaims td data)))
    \<and> revenueStuckInQuery m =
        jssum (map PkgRate
                 (filter (\<lambda>row. isInQuery (Status row)) (preprocessMAAClaims td data)))
    \<and> denialRate m =
        (if 0 < totalClaims m
         then jsmul (jsdiv (num (rejectedClaims m)) (num (totalClaims m))) (Fin 100) else Fin 0)
    \<and> queryIncidence m =
        (if 0 < totalClaims m
         then jsmul (jsdiv (num (claimsWithQuery m)) (num (totalClaims m))) (Fin 100) else Fin 0)
    \<and> firstPassRate m =
        (if 0 < totalClaims m
         then jsmul (jsdiv (num (claimsWithoutQuery m)) (num (totalClaims m))) (Fin 100)
         else Fin 0)
    \<and> collectionEfficiency m =
        (if jsgt (totalApprovedAmount m) (Fin 0)
         then jsmul (jsdiv (totalPaidAmount m) (totalApprovedAmount m)) (Fin 100) else Fin 0)
    \<and> revenueLeakageRate m =
        (if jsgt (totalClaimValue m) (Fin 0)
         then jsmul (jsdiv (rejectedClaimsAmount m) (totalClaimValue m)) (Fin 100) else Fin 0)
    \<and> averageClaimAmount m =
        (if 0 < totalClaims m then jsround (jsdiv (totalClaimValue m) (num (totalClaims m)))
         else Fin 0)
    \<and> highValueClaimsPercentage m =
        (if 0 < totalClaims m
         then jsmul (jsdiv (num (length (filter (\<lambda>row. jsgt (PkgRate row) (Fin 100000)) cs)))
                           (num (totalClaims m))) (Fin 100)
         else Fin 0)
    \<and> avgLengthOfStay m =
        (let claimsWithDates =
               filter (\<lambda>row. DateOfAdmission row \<noteq> None \<and> DateOfDischarge row \<noteq> None) cs
         in if 0 < length claimsWithDates
            then jsdiv (jssum (map lengthOfStay claimsWithDates)) (num (length claimsWithDates))
            else Fin 4)
    \<and> avgDaysToPayment m =
        (let claimsWithPaymentDays =
               filter (\<lambda>row. truthy (DaysToPayment row) \<and> jsgt (DaysToPayment row) (Fin 0)) cs
         in if 0 < length claimsWithPaymentDays
            then jsdiv (jssum (map DaysToPayment claimsWithPaymentDays))
                       (num (length claimsWithPaymentDays))
            else jsor (avgLengthOfStay m) (Fin 45))
    \<and> monthsSpan m =
        (if minDate m \<noteq> None \<and> maxDate m \<noteq> None
         then jsmax (Fin 1)
                (jsceil (jsdiv (Fin (of_int (dateNum (maxDate m) - dateNum (minDate m))))
                               (Fin (1000 * 60 * 60 * 24 * 30))))
         else Fin 12)
    \<and> healthScore m =
        jsmin (Fin 90)
          (jsadd (jsadd (jsmul (jssub (Fin 100) (denialRate m)) (Fin (4 / 10)))
                        (jsmul (collectionEfficiency m) (Fin (4 / 10))))
                 (jsmul (jssub (Fin 100) (queryIncidence m)) (Fin (2 / 10))))"
proof (cases "groupDataByTID (preprocessMAAClaims td data)")
  case (Inl e)
  with assms show ?thesis by (simp add: calculateProposalMetrics_def Let_def)
next
  case (Inr cs)
  with assms have "m = projr (calculateProposalMetrics td data)" by simp
  with Inr show ?thesis
    by (simp add: calculateProposalMetrics_def Let_def)
qed


subsection \<open>Finite numbers\<close>
























subsection \<open>Evaluation of the calculator\<close>

lemmas status_eval = isPaid_def isRejected_def isApprovedUnpaid_def isInQuery_def
  toLowerCase_def lowerChar_def

lemmas metric_eval = calculateProposalMetrics_def num_def jssum_def jsmax_def jsmin_def
  jssub_def jseq_def lengthOfStay_def dateNum_def

subsection \<open>Finite results\<close>






subsection \<open>The total paid amount\<close>

lemma preprocessRow_Status: "Status (preprocessRow td row) = row ''Status''"
  by (simp add: preprocessRow_def Let_def)

lemma preprocessRow_TID: "TID (preprocessRow td row) = row ''TID''"
  by (simp add: preprocessRow_def Let_def)

lemma preprocessRow_ApprovedAmount:
  "ApprovedAmount (preprocessRow td row) = parseNumber (row ''Approved Amount'')"
  by (simp add: preprocessRow_def Let_def)

lemma preprocessRow_PkgRate: "PkgRate (preprocessRow td row) = parseNumber (row ''Pkg Rate'')"
  by (simp add: preprocessRow_def Let_def)

lemma row_sum_raw:
  "jssum (map f (filter (\<lambda>row. P (Status row)) (preprocessMAAClaims td data)))
   = jssum (map (\<lambda>row. f (preprocessRow td row)) (filter (\<lambda>row. P (row ''Status'')) data))"
  by (simp add: preprocessMAAClaims_def filter_map comp_def preprocessRow_Status)

lemma isPaid_iff: "isPaid st = (\<exists>u v. st = Some (u @ ''Claim Paid'' @ v))"
  by (simp only: isPaid_def paid_status_iff)

text \<open>
  C6. The total paid amount of a result is the sum of the Approved Amount of the
  normalized rows whose Status has \<open>Claim Paid\<close> as a substring, taken over all rows in
  input order; in terms of the raw rows, the sum of the parsed Approved Amount of the rows
  with such a Status. It is not the sum of the claims' Actual Paid Amount: there is an
  input on which the two differ.
\<close>

theorem totalPaidAmount_row_level:
  assumes "calculateProposalMetrics td data = Inr m"
  shows "totalPaidAmount m =
       jssum (map ApprovedAmount
                (filter (\<lambda>row. \<exists>u v. Status row = Some (u @ ''Claim Paid'' @ v))
                   (preprocessMAAClaims td data)))
     \<and> totalPaidAmount m =
       jssum (map (\<lambda>row. parseNumber (row ''Approved Amount''))
                (filter (\<lambda>row. \<exists>u v. row ''Status'' = Some (u @ ''Claim Paid'' @ v)) data))
     \<and> (\<exists>data' m' cs'. calculateProposalMetrics td data' = Inr m'
           \<and> groupDataByTID (preprocessMAAClaims td data') = Inr cs'
           \<and> totalPaidAmount m' \<noteq> jssum (map ActualPaidAmount cs'))"
proof -
  from cpm_fields [OF assms] have e: "totalPaidAmount m =
        jssum (map ApprovedAmount
                 (filter (\<lambda>row. isPaid (Status row)) (preprocessMAAClaims td data)))"
    by blast
  then have a: "totalPaidAmount m =
       jssum (map ApprovedAmount
                (filter (\<lambda>row. \<exists>u v. Status row = Some (u @ ''Claim Paid'' @ v))
                   (preprocessMAAClaims td data)))"
    by (simp add: isPaid_iff)
  from e have b: "totalPaidAmount m =
       jssum (map (\<lambda>row. parseNumber (row ''Approved Amount''))
                (filter (\<lambda>row. \<exists>u v. row ''Status'' = Some (u @ ''Claim Paid'' @ v)) data))"
    unfolding row_sum_raw by (simp add: isPaid_iff preprocessRow_ApprovedAmount)
  let ?d = "[[''TID'' \<mapsto> ''A'', ''Status'' \<mapsto> ''Claim Paid'', ''Approved Amount'' \<mapsto> ''100''],
             [''Status'' \<mapsto> ''Claim Paid'', ''Approved Amount'' \<mapsto> ''50'']]"
  have "\<exists>m' cs'. calculateProposalMetrics td ?d = Inr m'
           \<and> groupDataByTID (preprocessMAAClaims td ?d) = Inr cs'
           \<and> totalPaidAmount m' \<noteq> jssum (map ActualPaidAmount cs')"
    by (simp add: metric_eval status_eval num_eval row_eval group_eval)
  then have c: "\<exists>data' m' cs'. calculateProposalMetrics td data' = Inr m'
           \<and> groupDataByTID (preprocessMAAClaims td data') = Inr cs'
           \<and> totalPaidAmount m' \<noteq> jssum (map ActualPaidAmount cs')"
    by blast
  from a b c show ?thesis by blast
qed

theorem totalPaidAmount_row_level_witness:
  "\<exists>m. calculateProposalMetrics (\<lambda>s. None)
          [[''TID'' \<mapsto> ''7'', ''Status'' \<mapsto> ''Claim Paid'', ''Approved Amount'' \<mapsto> ''100''],
           [''TID'' \<mapsto> ''7'', ''Status'' \<mapsto> ''Claim Query'', ''Approved Amount'' \<mapsto> ''40''],
           [''TID'' \<mapsto> ''8'', ''Status'' \<mapsto> ''Pending'', ''Approved Amount'' \<mapsto> ''30''],
           [''TID'' \<mapsto> ''8'', ''Status'' \<mapsto> ''Claim Paid (Bank)'', ''Approved Amount'' \<mapsto> ''20'']]
        = Inr m
      \<and> totalPaidAmount m = Fin 120"
proof -
  let ?d = "[[''TID'' \<mapsto> ''7'', ''Status'' \<mapsto> ''Claim Paid'', ''Approved Amount'' \<mapsto> ''100''],
           [''TID'' \<mapsto> ''7'', ''Status'' \<mapsto> ''Claim Query'', ''Approved Amount'' \<mapsto> ''40''],
           [''TID'' \<mapsto> ''8'', ''Status'' \<mapsto> ''Pending'', ''Approved Amount'' \<mapsto> ''30''],
           [''TID'' \<mapsto> ''8'', ''Status'' \<mapsto> ''Claim Paid (Bank)'', ''Approved Amount'' \<mapsto> ''20'']]"
  have "\<exists>m. calculateProposalMetrics (\<lambda>s. None) ?d = Inr m"
    by (simp add: metric_eval status_eval num_eval row_eval group_eval)
  then obtain m where m: "calculateProposalMetrics (\<lambda>s. None) ?d = Inr m" ..
  from totalPaidAmount_row_level [OF m, unfolded paid_status_iff, THEN conjunct2, THEN conjunct1]
  have "totalPaidAmount m = Fin 120"
    by (simp add: statusIncludes_def num_eval jssum_def)
  with m show ?thesis by blast
qed

subsection \<open>Rows without a TID\<close>

lemma groupDataByTID_snoc_skip:
  assumes "\<not> strTruthy (TID r)"
  shows "groupDataByTID (rows @ [r]) = groupDataByTID rows"
proof -
  have "filter (\<lambda>r. strTruthy (TID r)) (rows @ [r]) = filter (\<lambda>r. strTruthy (TID r)) rows"
    using assms by simp
  then have "groupReduce [] (rows @ [r]) = groupReduce [] rows"
    by (metis groupReduce_filter)
  then show ?thesis by (simp add: groupDataByTID_def)
qed

lemma cpm_defined:
  assumes "groupDataByTID (preprocessMAAClaims td data) = Inr cs"
  shows "\<exists>m. calculateProposalMetrics td data = Inr m"
  using assms by (simp add: calculateProposalMetrics_def Let_def)

lemma row_sum_snoc:
  "jssum (map f (filter (\<lambda>row. P (Status row)) (preprocessMAAClaims td (data @ [r]))))
   = (if P (r ''Status'')
      then jsadd (jssum (map f (filter (\<lambda>row. P (Status row)) (preprocessMAAClaims td data))))
             (f (preprocessRow td r))
      else jssum (map f (filter (\<lambda>row. P (Status row)) (preprocessMAAClaims td data))))"
  by (simp add: preprocessMAAClaims_def preprocessRow_Status jssum_snoc)

text \<open>
  C10. The four sums that \<open>calculateProposalMetrics\<close> takes over the rows count the rows
  that have no TID, which belong to no claim: a row without a TID, added at the end of an
  input, leaves the number of claims, the total claim value and the total approved amount
  as they are, and adds its Approved Amount or Pkg Rate to each row sum whose Status test
  it passes. So there is an input with a paid row without a TID for which the total paid
  amount is greater than the total approved amount and the collection efficiency is
  greater than 100.
\<close>

theorem row_sums_count_rows_without_TID:
  "(calculateProposalMetrics td data = Inr m \<and> \<not> strTruthy (r ''TID'') \<longrightarrow>
      (\<exists>m'. calculateProposalMetrics td (data @ [r]) = Inr m'
         \<and> totalClaims m' = totalClaims m
         \<and> totalClaimValue m' = totalClaimValue m
         \<and> totalApprovedAmount m' = totalApprovedAmount m
         \<and> totalPaidAmount m' =
             (if isPaid (r ''Status'')
              then jsadd (totalPaidAmount m) (parseNumber (r ''Approved Amount''))
              else totalPaidAmount m)
         \<and> rejectedClaimsAmount m' =
             (if isRejected (r ''Status'')
              then jsadd (rejectedClaimsAmount m) (parseNumber (r ''Pkg Rate''))
              else rejectedClaimsAmount m)
         \<and> approvedUnpaidAmount m' =
             (if isApprovedUnpaid (r ''Status'')
              then jsadd (approvedUnpaidAmount m) (parseNumber (r ''Approved Amount''))
              else approvedUnpaidAmount m)
         \<and> revenueStuckInQuery m' =
             (if isInQuery (r ''Status'')
              then jsadd (revenueStuckInQuery m) (parseNumber (r ''Pkg Rate''))
              else revenueStuckInQuery m)))
   \<and> (\<exists>data' r' m'. calculateProposalMetrics td data' = Inr m'
         \<and> r' \<in> set data' \<and> r' ''TID'' = None \<and> r' ''Status'' = Some ''Claim Paid''
         \<and> jsgt (totalPaidAmount m') (totalApprovedAmount m')
         \<and> jsgt (collectionEfficiency m') (Fin 100))"
proof -
  have general: "\<exists>m'. calculateProposalMetrics td (data @ [r]) = Inr m'
         \<and> totalClaims m' = totalClaims m
         \<and> totalClaimValue m' = totalClaimValue m
         \<and> totalApprovedAmount m' = totalApprovedAmount m
         \<and> totalPaidAmount m' =
             (if isPaid (r ''Status'')
              then jsadd (totalPaidAmount m) (parseNumber (r ''Approved Amount''))
              else totalPaidAmount m)
         \<and> rejectedClaimsAmount m' =
             (if isRejected (r ''Status'')
              then jsadd (rejectedClaimsAmount m) (parseNumber (r ''Pkg Rate''))
              else rejectedClaimsAmount m)
         \<and> approvedUnpaidAmount m' =
             (if isApprovedUnpaid (r ''Status'')
              then jsadd (approvedUnpaidAmount m) (parseNumber (r ''Approved Amount''))
              else approvedUnpaidAmount m)
         \<and> revenueStuckInQuery m' =
             (if isInQuery (r ''Status'')
              then jsadd (revenueStuckInQuery m) (parseNumber (r ''Pkg Rate''))
              else revenueStuckInQuery m)"
    if m: "calculateProposalMetrics td data = Inr m" and r: "\<not> strTruthy (r ''TID'')"
  proof -
    from cpm_fields [OF m] obtain cs where
          g: "groupDataByTID (preprocessMAAClaims td data) = Inr cs"
      and a1: "totalClaims m = length cs"
      and a2: "totalClaimValue m = jssum (map PkgRate cs)"
      and a3: "totalApprovedAmount m = jssum (map ApprovedAmount cs)"
      and a4: "totalPaidAmount m =
          jssum (map ApprovedAmount
                   (filter (\<lambda>row. isPaid (Status row)) (preprocessMAAClaims td data)))"
      and a5: "rejectedClaimsAmount m =
          jssum (map PkgRate
                   (filter (\<lambda>row. isRejected (Status row)) (preprocessMAAClaims td data)))"
      and a6: "approvedUnpaidAmount m =
          jssum (map ApprovedAmount
                   (filter (\<lambda>row. isApprovedUnpaid (Status row)) (preprocessMAAClaims td data)))"
      and a7: "revenueStuckInQuery m =
          jssum (map PkgRate
                   (filter (\<lambda>row. isInQuery (Status row)) (preprocessMAAClaims td data)))"
      by blast
    have "preprocessMAAClaims td (data @ [r]) = preprocessMAAClaims td data @ [preprocessRow td r]"
      by (simp add: preprocessMAAClaims_def)
    with g r have g': "groupDataByTID (preprocessMAAClaims td (data @ [r])) = Inr cs"
      by (simp add: groupDataByTID_snoc_skip preprocessRow_TID)
    from cpm_defined [OF g'] obtain m' where m': "calculateProposalMetrics td (data @ [r]) = Inr m'"
      by blast
    from cpm_fields [OF m'] g' have
          b1: "totalClaims m' = length cs"
      and b2: "totalClaimValue m' = jssum (map PkgRate cs)"
      and b3: "totalApprovedAmount m' = jssum (map ApprovedAmount cs)"
      and b4: "totalPaidAmount m' =
          jssum (map ApprovedAmount
                   (filter (\<lambda>row. isPaid (Status row)) (preprocessMAAClaims td (data @ [r]))))"
      and b5: "rejectedClaimsAmount m' =
          jssum (map PkgRate
                   (filter (\<lambda>row. isRejected (Status row)) (preprocessMAAClaims td (data @ [r]))))"
      and b6: "approvedUnpaidAmount m' =
          jssum (map ApprovedAmount
                   (filter (\<lambda>row. isApprovedUnpaid (Status row))
                      (preprocessMAAClaims td (data @ [r]))))"
      and b7: "revenueStuckInQuery m' =
          jssum (map PkgRate
                   (filter (\<lambda>row. isInQuery (Status row)) (preprocessMAAClaims td (data @ [r]))))"
      by auto
    have c4: "totalPaidAmount m' =
             (if isPaid (r ''Status'')
              then jsadd (totalPaidAmount m) (parseNumber (r ''Approved Amount''))
              else totalPaidAmount m)"
      unfolding b4 a4 row_sum_snoc by (simp add: preprocessRow_ApprovedAmount)
    have c5: "rejectedClaimsAmount m' =
             (if isRejected (r ''Status'')
              then jsadd (rejectedClaimsAmount m) (parseNumber (r ''Pkg Rate''))
              else rejectedClaimsAmount m)"
      unfolding b5 a5 row_sum_snoc by (simp add: preprocessRow_PkgRate)
    have c6: "approvedUnpaidAmount m' =
             (if isApprovedUnpaid (r ''Status'')
              then jsadd (approvedUnpaidAmount m) (parseNumber (r ''Approved Amount''))
              else approvedUnpaidAmount m)"
      unfolding b6 a6 row_sum_snoc by (simp add: preprocessRow_ApprovedAmount)
    have c7: "revenueStuckInQuery m' =
             (if isInQuery (r ''Status'')
              then jsadd (revenueStuckInQuery m) (parseNumber (r ''Pkg Rate''))
              else revenueStuckInQuery m)"
      unfolding b7 a7 row_sum_snoc by (simp add: preprocessRow_PkgRate)
    from m' a1 a2 a3 b1 b2 b3 c4 c5 c6 c7 show ?thesis by auto
  qed
  let ?d = "[[''TID'' \<mapsto> ''A'', ''Status'' \<mapsto> ''Claim Paid'', ''Pkg Rate'' \<mapsto> ''100'',
              ''Approved Amount'' \<mapsto> ''100''],
             [''Status'' \<mapsto> ''Claim Paid'', ''Pkg Rate'' \<mapsto> ''50'', ''Approved Amount'' \<mapsto> ''50'']]"
  let ?r = "[''Status'' \<mapsto> ''Claim Paid'', ''Pkg Rate'' \<mapsto> ''50'', ''Approved Amount'' \<mapsto> ''50'']"
  have "\<exists>m'. calculateProposalMetrics td ?d = Inr m'
         \<and> jsgt (totalPaidAmount m') (totalApprovedAmount m')
         \<and> jsgt (collectionEfficiency m') (Fin 100)"
    by (simp add: metric_eval status_eval num_eval row_eval group_eval)
  moreover have "?r \<in> set ?d \<and> ?r ''TID'' = None \<and> ?r ''Status'' = Some ''Claim Paid''"
    by simp
  ultimately have example: "\<exists>data' r' m'. calculateProposalMetrics td data' = Inr m'
         \<and> r' \<in> set data' \<and> r' ''TID'' = None \<and> r' ''Status'' = Some ''Claim Paid''
         \<and> jsgt (totalPaidAmount m') (totalApprovedAmount m')
         \<and> jsgt (collectionEfficiency m') (Fin 100)"
    by blast
  from general example show ?thesis by blast
qed


theorem row_sums_count_rows_without_TID_witness:
  "\<exists>m'. calculateProposalMetrics (\<lambda>s. None)
           ([[''TID'' \<mapsto> ''A'', ''Status'' \<mapsto> ''Claim Paid'', ''Pkg Rate'' \<mapsto> ''100'',
              ''Approved Amount'' \<mapsto> ''100'']]
            @ [[''Status'' \<mapsto> ''Claim Paid'', ''Pkg Rate'' \<mapsto> ''50'',
                ''Approved Amount'' \<mapsto> ''50'']]) = Inr m'
       \<and> totalClaims m' = 1 \<and> totalClaimValue m' = Fin 100
       \<and> totalApprovedAmount m' = Fin 100 \<and> totalPaidAmount m' = Fin 150
       \<and> rejectedClaimsAmount m' = Fin 0 \<and> approvedUnpaidAmount m' = Fin 0
       \<and> revenueStuckInQuery m' = Fin 0"
proof -
  let ?d = "[[''TID'' \<mapsto> ''A'', ''Status'' \<mapsto> ''Claim Paid'', ''Pkg Rate'' \<mapsto> ''100'',
              ''Approved Amount'' \<mapsto> ''100'']]"
  let ?r = "[''Status'' \<mapsto> ''Claim Paid'', ''Pkg Rate'' \<mapsto> ''50'', ''Approved Amount'' \<mapsto> ''50'']"
  have "\<exists>m. calculateProposalMetrics (\<lambda>s. None) ?d = Inr m
         \<and> totalClaims m = 1 \<and> totalClaimValue m = Fin 100
         \<and> totalApprovedAmount m = Fin 100 \<and> totalPaidAmount m = Fin 100
         \<and> rejectedClaimsAmount m = Fin 0 \<and> approvedUnpaidAmount m = Fin 0
         \<and> revenueStuckInQuery m = Fin 0"
    by (simp add: metric_eval status_eval num_eval row_eval group_eval)
  then obtain m where m: "calculateProposalMetrics (\<lambda>s. None) ?d = Inr m"
    and v: "totalClaims m = 1" "totalClaimValue m = Fin 100"
      "totalApprovedAmount m = Fin 100" "totalPaidAmount m = Fin 100"
      "rejectedClaimsAmount m = Fin 0" "approvedUnpaidAmount m = Fin 0"
      "revenueStuckInQuery m = Fin 0"
    by blast
  have r: "\<not> strTruthy (?r ''TID'')"
    by (simp add: strTruthy_def)
  have s: "isPaid (?r ''Status'')" "\<not> isRejected (?r ''Status'')"
    "\<not> isApprovedUnpaid (?r ''Status'')" "\<not> isInQuery (?r ''Status'')"
    by (simp_all add: status_eval statusIncludes_def)
  have p: "parseNumber (?r ''Approved Amount'') = Fin 50"
    by (simp add: num_eval)
  from row_sums_count_rows_without_TID [of "\<lambda>s. None" ?d m ?r] m r
  obtain m' where "calculateProposalMetrics (\<lambda>s. None) (?d @ [?r]) = Inr m'"
    "totalClaims m' = totalClaims m" "totalClaimValue m' = totalClaimValue m"
    "totalApprovedAmount m' = totalApprovedAmount m"
    "totalPaidAmount m' =
             (if isPaid (?r ''Status'')
              then jsadd (totalPaidAmount m) (parseNumber (?r ''Approved Amount''))
              else totalPaidAmount m)"
    "rejectedClaimsAmount m' =
             (if isRejected (?r ''Status'')
              then jsadd (rejectedClaimsAmount m) (parseNumber (?r ''Pkg Rate''))
              else rejectedClaimsAmount m)"
    "approvedUnpaidAmount m' =
             (if isApprovedUnpaid (?r ''Status'')
              then jsadd (approvedUnpaidAmount m) (parseNumber (?r ''Approved Amount''))
              else approvedUnpaidAmount m)"
    "revenueStuckInQuery m' =
             (if isInQuery (?r ''Status'')
              then jsadd (revenueStuckInQuery m) (parseNumber (?r ''Pkg Rate''))
              else revenueStuckInQuery m)"
    by blast
  then show ?thesis
    unfolding v by (simp only: s p if_True if_False jsadd.simps) simp
qed

section \<open>The projection engine\<close>




end
